theory Spec2Isabelle
  imports Complex_Main
begin

section \<open>Numbers of the notebook\<close>

text \<open>
  The notebook computes with Python and NumPy floats. They are modelled as real numbers:
  every arithmetic step is exact, so binary rounding error is left out of the model.
  The one float value that is not a real and that the notebook can produce from real
  inputs is NaN (the mean and the standard deviation of an empty array); it is kept as a
  value of its own, with the IEEE rules the code relies on: arithmetic on NaN gives NaN
  and every ordering comparison with NaN is false.
\<close>

datatype pyfloat = Val real | NaN

fun f_le :: "pyfloat \<Rightarrow> pyfloat \<Rightarrow> bool" where
  "f_le (Val a) (Val b) = (a \<le> b)"
| "f_le _ _ = False"

fun f_lt :: "pyfloat \<Rightarrow> pyfloat \<Rightarrow> bool" where
  "f_lt (Val a) (Val b) = (a < b)"
| "f_lt _ _ = False"

definition f_ge :: "pyfloat \<Rightarrow> pyfloat \<Rightarrow> bool" where
  "f_ge a b = f_le b a"

fun f_add :: "pyfloat \<Rightarrow> pyfloat \<Rightarrow> pyfloat" where
  "f_add (Val a) (Val b) = Val (a + b)"
| "f_add _ _ = NaN"

fun f_sub :: "pyfloat \<Rightarrow> pyfloat \<Rightarrow> pyfloat" where
  "f_sub (Val a) (Val b) = Val (a - b)"
| "f_sub _ _ = NaN"

fun f_mul :: "pyfloat \<Rightarrow> pyfloat \<Rightarrow> pyfloat" where
  "f_mul (Val a) (Val b) = Val (a * b)"
| "f_mul _ _ = NaN"

fun f_sq :: "pyfloat \<Rightarrow> pyfloat" where
  "f_sq (Val a) = Val (a ^ 2)"
| "f_sq NaN = NaN"

text \<open>
  Python's \<^verbatim>\<open>round(x, ndigits)\<close> rounds to the nearest multiple of
  \<open>10 ^ (- ndigits)\<close> and a tie to the even neighbour; \<^verbatim>\<open>round(nan, n)\<close> is NaN.
  In the model a tie is a tie of the real number, where the float would decide on its
  binary value.
\<close>

definition round_half_even :: "real \<Rightarrow> int" where
  "round_half_even x =
     (let f = \<lfloor>x\<rfloor>; r = x - of_int f
      in if r < 1 / 2 then f
         else if 1 / 2 < r then f + 1
         else if even f then f else f + 1)"

definition py_round :: "real \<Rightarrow> int \<Rightarrow> real" where
  "py_round x ndigits =
     (if 0 \<le> ndigits
      then of_int (round_half_even (x * 10 ^ nat ndigits)) / 10 ^ nat ndigits
      else of_int (round_half_even (x / 10 ^ nat (- ndigits))) * 10 ^ nat (- ndigits))"

fun f_round :: "pyfloat \<Rightarrow> int \<Rightarrow> pyfloat" where
  "f_round (Val a) ndigits = Val (py_round a ndigits)"
| "f_round NaN ndigits = NaN"

section \<open>The sample set\<close>

text \<open>
  \<^verbatim>\<open>data\<close> is an object with the methods \<^verbatim>\<open>mean()\<close> and \<^verbatim>\<open>std()\<close>: a NumPy array, whose
  \<^verbatim>\<open>std\<close> divides by \<open>n\<close>, or a pandas Series, whose \<^verbatim>\<open>std\<close> divides by \<open>n - 1\<close>.
  Neither method raises on an empty object: both return NaN (the Series also for the
  standard deviation of a single observation).
\<close>

datatype array_like = NdArray "real list" | Series "real list"

fun observations :: "array_like \<Rightarrow> real list" where
  "observations (NdArray xs) = xs"
| "observations (Series xs) = xs"

definition data_mean :: "array_like \<Rightarrow> pyfloat" where
  "data_mean data =
     (let xs = observations data
      in if xs = [] then NaN else Val (sum_list xs / real (length xs)))"

definition sum_sq_dev :: "real list \<Rightarrow> real" where
  "sum_sq_dev xs =
     (let m = sum_list xs / real (length xs) in sum_list (map (\<lambda>x. (x - m) ^ 2) xs))"

fun data_std :: "array_like \<Rightarrow> pyfloat" where
  "data_std (NdArray xs) =
     (if xs = [] then NaN else Val (sqrt (sum_sq_dev xs / real (length xs))))"
| "data_std (Series xs) =
     (if length xs \<le> 1 then NaN else Val (sqrt (sum_sq_dev xs / real (length xs - 1))))"

section \<open>The sampled domain\<close>

text \<open>
  \<^verbatim>\<open>np.linspace(start, stop, num)\<close>: \<open>num\<close> points \<open>start + i * step\<close> with
  \<open>step = (stop - start) / (num - 1)\<close>, the last one being \<open>stop\<close>.
\<close>

definition linspace :: "real \<Rightarrow> real \<Rightarrow> nat \<Rightarrow> real list" where
  "linspace start stop num =
     (let step = (stop - start) / real (num - 1)
      in map (\<lambda>i. start + real i * step) [0..<num])"

section \<open>The two generators\<close>

text \<open>
  What a generator returns: the dictionary with the statistics table under
  \<^verbatim>\<open>'Results'\<close> (the columns \<^verbatim>\<open>Statistics\<close> and \<^verbatim>\<open>Values\<close>, row by row) and the table of
  the curve under \<^verbatim>\<open>'Loss Curve'\<close> (the columns \<^verbatim>\<open>x-values\<close> and \<^verbatim>\<open>y-values\<close>, row by
  row).
\<close>

record output_dict =
  Results :: "(string \<times> pyfloat) list"
  Loss_Curve :: "(real \<times> real) list"

text \<open>
  The only exception the numeric part of the notebook can raise on real inputs: the
  one-sided generator reads \<^verbatim>\<open>slope\<close> although none of its three branches has bound it.
\<close>

datatype error = UnboundLocalError

text \<open>The body of the loop over \<^verbatim>\<open>x_values\<close> in \<^verbatim>\<open>taguchi_loss_function\<close>.\<close>

definition taguchi_result :: "real \<Rightarrow> real \<Rightarrow> real \<Rightarrow> real \<Rightarrow> real \<Rightarrow> real" where
  "taguchi_result tolerance target USL LSL v =
     (if v \<le> LSL then tolerance * (target - LSL) ^ 2
      else if v \<ge> USL then tolerance * (USL - target) ^ 2
      else tolerance * (v - target) ^ 2)"

text \<open>
  \<^verbatim>\<open>taguchi_loss_function(data, USL, LSL, k, ..., round_value, spec_buffer)\<close>. The
  parameters that only steer the chart are left out, and so are the calls that draw it:
  they read the values computed here and change none of them.
\<close>

definition taguchi_loss_function ::
  "array_like \<Rightarrow> real \<Rightarrow> real \<Rightarrow> real \<Rightarrow> int \<Rightarrow> real \<Rightarrow> error + output_dict" where
  "taguchi_loss_function data USL LSL k round_value spec_buffer =
     (let x_values = linspace (LSL - spec_buffer) (USL + spec_buffer) 500;
          tolerance = USL - LSL;
          target = py_round (LSL + tolerance / 2) round_value;
          result = map (taguchi_result tolerance target USL LSL) x_values;
          loss_curve_df = zip x_values result;
          mean = f_round (data_mean data) round_value;
          std = f_round (data_std data) round_value;
          slope = (if f_le mean (Val LSL) \<or> f_ge mean (Val USL) then Val 0
                   else f_round (f_mul (Val tolerance) (f_sq (f_sub mean (Val target))))
                          round_value);
          loss = f_round (f_add (f_mul (Val k) (f_sq std)) (f_sq (f_sub mean (Val target))))
                   round_value
      in Inr \<lparr>Results = [(''Mean'', mean), (''s'', std), (''Ave. Loss'', loss),
                          (''Slope at Ave.'', slope)],
              Loss_Curve = loss_curve_df\<rparr>)"

text \<open>The body of the loop over \<^verbatim>\<open>x_values\<close> in \<^verbatim>\<open>one_sided_loss_function\<close>.\<close>

definition one_sided_result :: "real \<Rightarrow> real \<Rightarrow> real \<Rightarrow> real \<Rightarrow> real" where
  "one_sided_result tolerance target spec_limit v =
     (if v \<ge> spec_limit then tolerance * (spec_limit - target) ^ 2
      else if v \<le> target then 0
      else tolerance * max 0 ((v - target) ^ 2))"

text \<open>
  The \<^verbatim>\<open>if/elif/elif\<close> chain that binds \<^verbatim>\<open>slope\<close> in the one-sided generator. It has
  no \<^verbatim>\<open>else\<close>: when no condition holds the name stays unbound (\<open>None\<close>).
\<close>

definition one_sided_slope :: "real \<Rightarrow> real \<Rightarrow> real \<Rightarrow> pyfloat \<Rightarrow> pyfloat option" where
  "one_sided_slope tolerance target spec_limit mean =
     (if f_le mean (Val target) then Some (Val 0)
      else if f_lt (Val target) mean \<and> f_le mean (Val spec_limit)
        then Some (f_mul (Val tolerance) (f_sq (f_sub mean (Val target))))
      else if f_lt (Val spec_limit) mean then Some (Val 0)
      else None)"

text \<open>
  \<^verbatim>\<open>one_sided_loss_function(data, target, spec_limit, k, ..., round_value, below_target,
  past_spec)\<close>, again without the chart. The first read of \<^verbatim>\<open>slope\<close> comes after all the
  values are computed and before anything is returned.
\<close>

definition one_sided_loss_function ::
  "array_like \<Rightarrow> real \<Rightarrow> real \<Rightarrow> real \<Rightarrow> int \<Rightarrow> real \<Rightarrow> real \<Rightarrow> error + output_dict" where
  "one_sided_loss_function data target spec_limit k round_value below_target past_spec =
     (let x_values = linspace (target - below_target) (spec_limit + past_spec) 500;
          tolerance = spec_limit - target;
          result = map (one_sided_result tolerance target spec_limit) x_values;
          loss_curve_df = zip x_values result;
          mean = f_round (data_mean data) round_value;
          std = f_round (data_std data) round_value;
          loss = (if f_lt mean (Val target) then Val 0
                  else f_round (f_add (f_mul (Val k) (f_sq std))
                                  (f_sq (f_sub mean (Val target)))) round_value)
      in case one_sided_slope tolerance target spec_limit mean of
           None \<Rightarrow> Inl UnboundLocalError
         | Some slope \<Rightarrow>
             Inr \<lparr>Results = [(''Mean'', mean), (''s'', std), (''Ave. Loss'', loss),
                              (''Slope at Ave.'', slope)],
                  Loss_Curve = loss_curve_df\<rparr>)"

text \<open>The value the statistics table holds in the row \<^verbatim>\<open>'Slope at Ave.'\<close>.\<close>

definition slope_at_mean :: "output_dict \<Rightarrow> pyfloat option" where
  "slope_at_mean out = map_of (Results out) ''Slope at Ave.''"

section \<open>Basic facts\<close>

lemma length_linspace: "length (linspace start stop num) = num"
  by (simp add: linspace_def Let_def)

lemma taguchi_returns:
  "taguchi_loss_function data USL LSL k round_value spec_buffer =
     Inr (projr (taguchi_loss_function data USL LSL k round_value spec_buffer))"
  by (simp add: taguchi_loss_function_def Let_def)

lemma taguchi_curve:
  "Loss_Curve (projr (taguchi_loss_function data USL LSL k round_value spec_buffer)) =
     map (\<lambda>v. (v, taguchi_result (USL - LSL) (py_round (LSL + (USL - LSL) / 2) round_value)
                     USL LSL v))
       (linspace (LSL - spec_buffer) (USL + spec_buffer) 500)"
  by (simp add: taguchi_loss_function_def Let_def zip_map2 zip_same_conv_map)

lemma taguchi_xs:
  "map fst (Loss_Curve (projr (taguchi_loss_function data USL LSL k round_value spec_buffer))) =
     linspace (LSL - spec_buffer) (USL + spec_buffer) 500"
  by (simp add: taguchi_curve comp_def)

lemma graph_point: "(x, y) \<in> set (map (\<lambda>v. (v, g v)) xs) \<Longrightarrow> y = g x"
  by auto

lemma data_mean_Val: "observations data \<noteq> [] \<Longrightarrow> \<exists>m. data_mean data = Val m"
  by (simp add: data_mean_def Let_def)

lemma rounded_mean_Val:
  "observations data \<noteq> [] \<Longrightarrow> \<exists>m. f_round (data_mean data) round_value = Val m"
  using data_mean_Val [of data] by auto

lemma one_sided_slope_Val:
  "one_sided_slope tolerance target spec_limit (Val m) =
     Some (if m \<le> target then Val 0
           else if m \<le> spec_limit then Val (tolerance * (m - target) ^ 2)
           else Val 0)"
  by (simp add: one_sided_slope_def)

lemma one_sided_returns:
  assumes "observations data \<noteq> []"
  shows "one_sided_loss_function data target spec_limit k round_value below_target past_spec =
     Inr (projr (one_sided_loss_function data target spec_limit k round_value below_target
                   past_spec))"
proof -
  obtain m where "f_round (data_mean data) round_value = Val m"
    using rounded_mean_Val [OF assms] by blast
  then show ?thesis
    by (simp add: one_sided_loss_function_def Let_def one_sided_slope_Val)
qed

lemma one_sided_curve:
  assumes "observations data \<noteq> []"
  shows "Loss_Curve (projr (one_sided_loss_function data target spec_limit k round_value
                              below_target past_spec)) =
     map (\<lambda>v. (v, one_sided_result (spec_limit - target) target spec_limit v))
       (linspace (target - below_target) (spec_limit + past_spec) 500)"
proof -
  obtain m where "f_round (data_mean data) round_value = Val m"
    using rounded_mean_Val [OF assms] by blast
  then show ?thesis
    by (simp add: one_sided_loss_function_def Let_def one_sided_slope_Val zip_map2
        zip_same_conv_map)
qed

lemma one_sided_xs:
  assumes "observations data \<noteq> []"
  shows "map fst (Loss_Curve (projr (one_sided_loss_function data target spec_limit k
                                       round_value below_target past_spec))) =
     linspace (target - below_target) (spec_limit + past_spec) 500"
  by (simp add: one_sided_curve [OF assms] comp_def)

lemma nth_pair:
  assumes "i < length c" and "map fst c ! i = x"
  obtains y where "(x, y) \<in> set c" and "c ! i = (x, y)"
proof -
  have "c ! i \<in> set c" using assms(1) by simp
  moreover have "fst (c ! i) = x" using assms by simp
  ultimately show ?thesis using that [of "snd (c ! i)"] by (metis prod.collapse)
qed

lemma linspace_first: "linspace a b 500 ! 0 = a"
  by (simp add: linspace_def Let_def)

lemma linspace_last: "linspace a b 500 ! 499 = b"
  by (simp add: linspace_def Let_def diff_divide_distrib)

section \<open>The loss curves\<close>

text \<open>
  C1. For every sample set, every \<open>USL > LSL\<close>, buffer and precision, the two-sided
  generator returns a curve over the 500 points of the domain in which, with
  \<open>tolerance = USL - LSL\<close> and \<open>target = round(LSL + tolerance / 2, precision)\<close>, a point
  \<open>x \<le> LSL\<close> has the loss \<open>tolerance * (target - LSL)\<^sup>2\<close>, a point \<open>x \<ge> USL\<close> the loss
  \<open>tolerance * (USL - target)\<^sup>2\<close>, and every other point the loss
  \<open>tolerance * (x - target)\<^sup>2\<close>.
\<close>

theorem two_sided_curve_values:
  assumes "LSL < USL"
  shows "\<exists>out. taguchi_loss_function data USL LSL k round_value spec_buffer = Inr out \<and>
           map fst (Loss_Curve out) = linspace (LSL - spec_buffer) (USL + spec_buffer) 500 \<and>
           (\<forall>(x, y) \<in> set (Loss_Curve out).
              let tolerance = USL - LSL;
                  target = py_round (LSL + tolerance / 2) round_value
              in (x \<le> LSL \<longrightarrow> y = tolerance * (target - LSL) ^ 2) \<and>
                 (USL \<le> x \<longrightarrow> y = tolerance * (USL - target) ^ 2) \<and>
                 (LSL < x \<and> x < USL \<longrightarrow> y = tolerance * (x - target) ^ 2))"
proof (intro exI conjI)
  let ?out = "projr (taguchi_loss_function data USL LSL k round_value spec_buffer)"
  show "taguchi_loss_function data USL LSL k round_value spec_buffer = Inr ?out"
    by (rule taguchi_returns)
  show "map fst (Loss_Curve ?out) = linspace (LSL - spec_buffer) (USL + spec_buffer) 500"
    by (rule taguchi_xs)
  show "\<forall>(x, y) \<in> set (Loss_Curve ?out).
          let tolerance = USL - LSL;
              target = py_round (LSL + tolerance / 2) round_value
          in (x \<le> LSL \<longrightarrow> y = tolerance * (target - LSL) ^ 2) \<and>
             (USL \<le> x \<longrightarrow> y = tolerance * (USL - target) ^ 2) \<and>
             (LSL < x \<and> x < USL \<longrightarrow> y = tolerance * (x - target) ^ 2)"
  proof (clarify)
    fix x y
    assume "(x, y) \<in> set (Loss_Curve ?out)"
    then have "y = taguchi_result (USL - LSL) (py_round (LSL + (USL - LSL) / 2) round_value)
                     USL LSL x"
      unfolding taguchi_curve by (rule graph_point)
    with assms show "let tolerance = USL - LSL;
              target = py_round (LSL + tolerance / 2) round_value
          in (x \<le> LSL \<longrightarrow> y = tolerance * (target - LSL) ^ 2) \<and>
             (USL \<le> x \<longrightarrow> y = tolerance * (USL - target) ^ 2) \<and>
             (LSL < x \<and> x < USL \<longrightarrow> y = tolerance * (x - target) ^ 2)"
      by (simp add: taguchi_result_def Let_def)
  qed
qed

text \<open>
  At \<open>LSL = 10\<close>, \<open>USL = 20\<close>, buffer 2 and precision 1 the target is 15: the first point of
  the curve, \<open>x = 8\<close>, and the last, \<open>x = 22\<close>, both carry the loss \<open>10 * 5\<^sup>2 = 250\<close>, and
  the point of index 250, \<open>x = 8 + 250 * 14 / 499 = 15 + 7 / 499\<close>, the loss
  \<open>10 * (7 / 499)\<^sup>2\<close>.
\<close>

theorem two_sided_curve_values_witness:
  "(10::real) < 20 \<and>
   Loss_Curve (projr (taguchi_loss_function (NdArray [14, 16]) 20 10 1 1 2)) ! 0 = (8, 250) \<and>
   Loss_Curve (projr (taguchi_loss_function (NdArray [14, 16]) 20 10 1 1 2)) ! 250 =
     (7492 / 499, 490 / 249001) \<and>
   Loss_Curve (projr (taguchi_loss_function (NdArray [14, 16]) 20 10 1 1 2)) ! 499 = (22, 250)"
proof -
  have r: "py_round (10 + (20 - 10) / 2) 1 = 15"
    by (simp add: py_round_def round_half_even_def Let_def)
  obtain out where out: "taguchi_loss_function (NdArray [14, 16]) 20 10 1 1 2 = Inr out"
    and xs: "map fst (Loss_Curve out) = linspace (10 - 2) (20 + 2) 500"
    and ys: "\<forall>(x, y) \<in> set (Loss_Curve out).
              let tolerance = 20 - 10; target = py_round (10 + tolerance / 2) 1
              in (x \<le> 10 \<longrightarrow> y = tolerance * (target - 10) ^ 2) \<and>
                 (20 \<le> x \<longrightarrow> y = tolerance * (20 - target) ^ 2) \<and>
                 (10 < x \<and> x < 20 \<longrightarrow> y = tolerance * (x - target) ^ 2)"
    using two_sided_curve_values [of 10 20 "NdArray [14, 16]" 1 1 2] by auto
  have len: "length (Loss_Curve out) = 500"
    using arg_cong [OF xs, of length] by (simp add: length_linspace)
  have mid: "linspace 8 22 500 ! 250 = 7492 / 499"
    by (simp add: linspace_def Let_def)
  obtain y0 where y0: "(8, y0) \<in> set (Loss_Curve out)" "Loss_Curve out ! 0 = (8, y0)"
    using nth_pair [of 0 "Loss_Curve out" 8] len xs linspace_first [of 8 22] by auto
  obtain y1 where y1: "(22, y1) \<in> set (Loss_Curve out)" "Loss_Curve out ! 499 = (22, y1)"
    using nth_pair [of 499 "Loss_Curve out" 22] len xs linspace_last [of 8 22] by auto
  obtain y2 where y2: "(7492 / 499, y2) \<in> set (Loss_Curve out)"
      "Loss_Curve out ! 250 = (7492 / 499, y2)"
    using nth_pair [of 250 "Loss_Curve out" "7492 / 499"] len xs mid by auto
  have "y0 = 250" using ys y0(1) r by (auto simp: Let_def)
  moreover have "y1 = 250" using ys y1(1) r by (auto simp: Let_def)
  moreover have "y2 = 10 * (7492 / 499 - 15) ^ 2" using ys y2(1) r by (auto simp: Let_def)
  then have "y2 = 490 / 249001" by (simp add: power2_eq_square)
  ultimately show ?thesis using out y0(2) y1(2) y2(2) by simp
qed

text \<open>
  C2. For every specification limit above the target, with
  \<open>tolerance = spec_limit - target\<close>, the loop of the one-sided generator assigns to a
  point \<open>x \<le> target\<close> the loss 0, to a point \<open>x \<ge> spec_limit\<close> the cap
  \<open>tolerance * (spec_limit - target)\<^sup>2\<close>, and to a point strictly between the two the loss
  \<open>tolerance * max(0, (x - target)\<^sup>2)\<close>; and for every non-empty sample set the curve
  returned holds the 500 points of the domain, each with the loss so assigned.
\<close>

theorem one_sided_curve_values:
  assumes "target < spec_limit"
  shows "(\<forall>x. let tolerance = spec_limit - target;
                 y = one_sided_result tolerance target spec_limit x
             in (x \<le> target \<longrightarrow> y = 0) \<and>
                (spec_limit \<le> x \<longrightarrow> y = tolerance * (spec_limit - target) ^ 2) \<and>
                (target < x \<and> x < spec_limit \<longrightarrow> y = tolerance * max 0 ((x - target) ^ 2))) \<and>
         (observations data \<noteq> [] \<longrightarrow>
            (\<exists>out. one_sided_loss_function data target spec_limit k round_value below_target
                      past_spec = Inr out \<and>
               map fst (Loss_Curve out) =
                 linspace (target - below_target) (spec_limit + past_spec) 500 \<and>
               (\<forall>(x, y) \<in> set (Loss_Curve out).
                  let tolerance = spec_limit - target
                  in (x \<le> target \<longrightarrow> y = 0) \<and>
                     (spec_limit \<le> x \<longrightarrow> y = tolerance * (spec_limit - target) ^ 2) \<and>
                     (target < x \<and> x < spec_limit \<longrightarrow>
                        y = tolerance * max 0 ((x - target) ^ 2)))))"
proof (intro conjI impI)
  show "\<forall>x. let tolerance = spec_limit - target;
                 y = one_sided_result tolerance target spec_limit x
             in (x \<le> target \<longrightarrow> y = 0) \<and>
                (spec_limit \<le> x \<longrightarrow> y = tolerance * (spec_limit - target) ^ 2) \<and>
                (target < x \<and> x < spec_limit \<longrightarrow> y = tolerance * max 0 ((x - target) ^ 2))"
    using assms by (simp add: one_sided_result_def Let_def)
next
  assume ne: "observations data \<noteq> []"
  let ?out = "projr (one_sided_loss_function data target spec_limit k round_value below_target
                       past_spec)"
  have ret: "one_sided_loss_function data target spec_limit k round_value below_target
               past_spec = Inr ?out"
    by (rule one_sided_returns [OF ne])
  have xs: "map fst (Loss_Curve ?out) =
          linspace (target - below_target) (spec_limit + past_spec) 500"
    by (rule one_sided_xs [OF ne])
  have ys: "\<forall>(x, y) \<in> set (Loss_Curve ?out).
          let tolerance = spec_limit - target
          in (x \<le> target \<longrightarrow> y = 0) \<and>
             (spec_limit \<le> x \<longrightarrow> y = tolerance * (spec_limit - target) ^ 2) \<and>
             (target < x \<and> x < spec_limit \<longrightarrow> y = tolerance * max 0 ((x - target) ^ 2))"
  proof (clarify)
    fix x y
    assume "(x, y) \<in> set (Loss_Curve ?out)"
    then have "y = one_sided_result (spec_limit - target) target spec_limit x"
      unfolding one_sided_curve [OF ne] by (rule graph_point)
    with assms show "let tolerance = spec_limit - target
          in (x \<le> target \<longrightarrow> y = 0) \<and>
             (spec_limit \<le> x \<longrightarrow> y = tolerance * (spec_limit - target) ^ 2) \<and>
             (target < x \<and> x < spec_limit \<longrightarrow> y = tolerance * max 0 ((x - target) ^ 2))"
      by (simp add: one_sided_result_def Let_def)
  qed
  from ret xs ys
  show "\<exists>out. one_sided_loss_function data target spec_limit k round_value below_target
                      past_spec = Inr out \<and>
               map fst (Loss_Curve out) =
                 linspace (target - below_target) (spec_limit + past_spec) 500 \<and>
               (\<forall>(x, y) \<in> set (Loss_Curve out).
                  let tolerance = spec_limit - target
                  in (x \<le> target \<longrightarrow> y = 0) \<and>
                     (spec_limit \<le> x \<longrightarrow> y = tolerance * (spec_limit - target) ^ 2) \<and>
                     (target < x \<and> x < spec_limit \<longrightarrow>
                        y = tolerance * max 0 ((x - target) ^ 2)))"
    by blast
qed

text \<open>
  At \<open>target = 0\<close>, \<open>spec_limit = 10\<close> and the margins 5 and 484 the 500 points are the
  integers from \<open>- 5\<close> to 494: the first has the loss 0, the point \<open>x = 5\<close> the loss
  \<open>10 * 5\<^sup>2 = 250\<close>, and the last the cap \<open>10 * 10\<^sup>2 = 1000\<close>.
\<close>

theorem one_sided_curve_values_witness:
  "(0::real) < 10 \<and> observations (Series [4, 6]) \<noteq> [] \<and>
   Loss_Curve (projr (one_sided_loss_function (Series [4, 6]) 0 10 1 1 5 484)) ! 0 = (- 5, 0) \<and>
   Loss_Curve (projr (one_sided_loss_function (Series [4, 6]) 0 10 1 1 5 484)) ! 10 = (5, 250) \<and>
   Loss_Curve (projr (one_sided_loss_function (Series [4, 6]) 0 10 1 1 5 484)) ! 499 =
     (494, 1000)"
proof -
  have h: "(0::real) < 10" by simp
  obtain out where out: "one_sided_loss_function (Series [4, 6]) 0 10 1 1 5 484 = Inr out"
    and xs: "map fst (Loss_Curve out) = linspace (0 - 5) (10 + 484) 500"
    and ys: "\<forall>(x, y) \<in> set (Loss_Curve out).
              let tolerance = 10 - 0
              in (x \<le> 0 \<longrightarrow> y = 0) \<and>
                 (10 \<le> x \<longrightarrow> y = tolerance * (10 - 0) ^ 2) \<and>
                 (0 < x \<and> x < 10 \<longrightarrow> y = tolerance * max 0 ((x - 0) ^ 2))"
    using one_sided_curve_values [OF h, of "Series [4, 6]" 1 1 5 484] by auto
  have len: "length (Loss_Curve out) = 500"
    using arg_cong [OF xs, of length] by (simp add: length_linspace)
  have mid: "linspace (- 5) 494 500 ! 10 = 5"
    by (simp add: linspace_def Let_def)
  obtain y0 where y0: "(- 5, y0) \<in> set (Loss_Curve out)" "Loss_Curve out ! 0 = (- 5, y0)"
    using nth_pair [of 0 "Loss_Curve out" "- 5"] len xs linspace_first [of "- 5" 494] by auto
  obtain y1 where y1: "(5, y1) \<in> set (Loss_Curve out)" "Loss_Curve out ! 10 = (5, y1)"
    using nth_pair [of 10 "Loss_Curve out" 5] len xs mid by auto
  obtain y2 where y2: "(494, y2) \<in> set (Loss_Curve out)" "Loss_Curve out ! 499 = (494, y2)"
    using nth_pair [of 499 "Loss_Curve out" 494] len xs linspace_last [of "- 5" 494] by auto
  have "y0 = 0" using ys y0(1) by (auto simp: Let_def)
  moreover have "y1 = 250" using ys y1(1) by (auto simp: Let_def)
  moreover have "y2 = 1000" using ys y2(1) by (auto simp: Let_def)
  ultimately show ?thesis using out y0(2) y1(2) y2(2) by simp
qed

section \<open>The slope at the mean\<close>

text \<open>
  C4. For every non-empty sample set the two-sided generator reports the rounded mean
  \<open>m\<close> and a slope-at-mean that is 0 when \<open>m \<le> LSL\<close> or \<open>m \<ge> USL\<close> (a mean exactly on a
  limit counts as outside) and \<open>round(tolerance * (m - target)\<^sup>2, precision)\<close> when
  \<open>LSL < m < USL\<close>.
\<close>

theorem two_sided_slope:
  assumes "observations data \<noteq> []"
  shows "\<exists>m out. f_round (data_mean data) round_value = Val m \<and>
           taguchi_loss_function data USL LSL k round_value spec_buffer = Inr out \<and>
           map_of (Results out) ''Mean'' = Some (Val m) \<and>
           (let tolerance = USL - LSL;
                target = py_round (LSL + tolerance / 2) round_value
            in (m \<le> LSL \<or> USL \<le> m \<longrightarrow> slope_at_mean out = Some (Val 0)) \<and>
               (LSL < m \<and> m < USL \<longrightarrow>
                  slope_at_mean out =
                    Some (Val (py_round (tolerance * (m - target) ^ 2) round_value))))"
proof -
  obtain m where m: "f_round (data_mean data) round_value = Val m"
    using rounded_mean_Val [OF assms] by blast
  show ?thesis
    by (rule exI [of _ m], rule exI [of _ "projr (taguchi_loss_function data USL LSL k
          round_value spec_buffer)"])
      (simp add: m taguchi_loss_function_def slope_at_mean_def f_ge_def Let_def)
qed

text \<open>
  With \<open>LSL = 10\<close>, \<open>USL = 20\<close> and precision 1 (target 15): a mean of 20, on the upper
  limit, and a mean of 10, on the lower one, have the slope 0, and a mean of 12 has the
  slope \<open>10 * 3\<^sup>2 = 90\<close>.
\<close>

theorem two_sided_slope_witness:
  "observations (NdArray [20]) \<noteq> [] \<and> observations (NdArray [10]) \<noteq> [] \<and>
   observations (NdArray [11, 13]) \<noteq> [] \<and>
   slope_at_mean (projr (taguchi_loss_function (NdArray [20]) 20 10 1 1 2)) = Some (Val 0) \<and>
   slope_at_mean (projr (taguchi_loss_function (NdArray [10]) 20 10 1 1 2)) = Some (Val 0) \<and>
   slope_at_mean (projr (taguchi_loss_function (NdArray [11, 13]) 20 10 1 1 2)) = Some (Val 90)"
proof -
  have m0: "f_round (data_mean (NdArray [10])) 1 = Val 10"
    by (simp add: data_mean_def py_round_def round_half_even_def Let_def)
  have low: "slope_at_mean (projr (taguchi_loss_function (NdArray [10]) 20 10 1 1 2)) =
          Some (Val 0)"
    using two_sided_slope [of "NdArray [10]" 1 20 10 1 2] m0 by (auto simp: Let_def)
  have r: "py_round (10 + (20 - 10) / 2) 1 = 15"
    by (simp add: py_round_def round_half_even_def Let_def)
  have m1: "f_round (data_mean (NdArray [20])) 1 = Val 20"
    by (simp add: data_mean_def py_round_def round_half_even_def Let_def)
  have m2: "f_round (data_mean (NdArray [11, 13])) 1 = Val 12"
    by (simp add: data_mean_def py_round_def round_half_even_def Let_def)
  have s: "py_round (10 * (12 - 15) ^ 2) 1 = 90"
    by (simp add: py_round_def round_half_even_def Let_def)
  have "slope_at_mean (projr (taguchi_loss_function (NdArray [20]) 20 10 1 1 2)) =
          Some (Val 0)"
    using two_sided_slope [of "NdArray [20]" 1 20 10 1 2] m1 by (auto simp: Let_def)
  moreover
  have "slope_at_mean (projr (taguchi_loss_function (NdArray [11, 13]) 20 10 1 1 2)) =
          Some (Val 90)"
    using two_sided_slope [of "NdArray [11, 13]" 1 20 10 1 2] m2 r s by (auto simp: Let_def)
  ultimately show ?thesis using low by simp
qed

text \<open>
  C5. For every non-empty sample set the one-sided generator reports the rounded mean
  \<open>m\<close> and, with \<open>tolerance = spec_limit - target\<close>, a slope-at-mean that is 0 when
  \<open>m \<le> target\<close>, \<open>tolerance * (m - target)\<^sup>2\<close> when \<open>target < m \<le> spec_limit\<close>, and 0
  when \<open>m > spec_limit\<close>.
\<close>

theorem one_sided_slope_cases:
  assumes "observations data \<noteq> []"
  shows "\<exists>m out. f_round (data_mean data) round_value = Val m \<and>
           one_sided_loss_function data target spec_limit k round_value below_target
             past_spec = Inr out \<and>
           map_of (Results out) ''Mean'' = Some (Val m) \<and>
           (let tolerance = spec_limit - target
            in (m \<le> target \<longrightarrow> slope_at_mean out = Some (Val 0)) \<and>
               (target < m \<and> m \<le> spec_limit \<longrightarrow>
                  slope_at_mean out = Some (Val (tolerance * (m - target) ^ 2))) \<and>
               (spec_limit < m \<longrightarrow> slope_at_mean out = Some (Val 0)))"
proof -
  obtain m where m: "f_round (data_mean data) round_value = Val m"
    using rounded_mean_Val [OF assms] by blast
  show ?thesis
    by (rule exI [of _ m], rule exI [of _ "projr (one_sided_loss_function data target
          spec_limit k round_value below_target past_spec)"])
      (simp add: m one_sided_loss_function_def one_sided_slope_Val slope_at_mean_def Let_def)
qed

text \<open>
  With \<open>target = 0\<close> and \<open>spec_limit = 10\<close>: a mean of 5 has the slope \<open>10 * 5\<^sup>2 = 250\<close>, a
  mean of \<open>- 3\<close> and a mean of 12 have the slope 0.
\<close>

theorem one_sided_slope_cases_witness:
  "observations (NdArray [4, 6]) \<noteq> [] \<and> observations (NdArray [- 3]) \<noteq> [] \<and>
   observations (NdArray [12]) \<noteq> [] \<and>
   slope_at_mean (projr (one_sided_loss_function (NdArray [4, 6]) 0 10 1 1 5 5)) =
     Some (Val 250) \<and>
   slope_at_mean (projr (one_sided_loss_function (NdArray [- 3]) 0 10 1 1 5 5)) =
     Some (Val 0) \<and>
   slope_at_mean (projr (one_sided_loss_function (NdArray [12]) 0 10 1 1 5 5)) =
     Some (Val 0)"
proof -
  have m1: "f_round (data_mean (NdArray [4, 6])) 1 = Val 5"
    by (simp add: data_mean_def py_round_def round_half_even_def Let_def)
  have m2: "f_round (data_mean (NdArray [- 3])) 1 = Val (- 3)"
    by (simp add: data_mean_def py_round_def round_half_even_def Let_def)
  have m3: "f_round (data_mean (NdArray [12])) 1 = Val 12"
    by (simp add: data_mean_def py_round_def round_half_even_def Let_def)
  have "slope_at_mean (projr (one_sided_loss_function (NdArray [4, 6]) 0 10 1 1 5 5)) =
          Some (Val 250)"
    using one_sided_slope_cases [of "NdArray [4, 6]" 1 0 10 1 5 5] m1 by (auto simp: Let_def)
  moreover
  have "slope_at_mean (projr (one_sided_loss_function (NdArray [- 3]) 0 10 1 1 5 5)) =
          Some (Val 0)"
    using one_sided_slope_cases [of "NdArray [- 3]" 1 0 10 1 5 5] m2 by (auto simp: Let_def)
  moreover
  have "slope_at_mean (projr (one_sided_loss_function (NdArray [12]) 0 10 1 1 5 5)) =
          Some (Val 0)"
    using one_sided_slope_cases [of "NdArray [12]" 1 0 10 1 5 5] m3 by (auto simp: Let_def)
  ultimately show ?thesis by simp
qed

text \<open>
  C6 as stated (a rounded mean exactly on the specification limit is reported with the
  slope 0) fails: with \<open>target = 0\<close>, \<open>spec_limit = 10\<close> and the single observation 10 the
  rounded mean is 10, the branch \<open>target < mean \<le> spec_limit\<close> is taken and the slope
  reported is \<open>10 * 10\<^sup>2 = 1000\<close>.
\<close>

theorem slope_at_spec_limit_counterexample:
  "f_round (data_mean (NdArray [10])) 1 = Val 10 \<and>
   slope_at_mean (projr (one_sided_loss_function (NdArray [10]) 0 10 1 1 5 5)) =
     Some (Val 1000) \<and>
   slope_at_mean (projr (one_sided_loss_function (NdArray [10]) 0 10 1 1 5 5)) \<noteq>
     Some (Val 0)"
  by (simp add: slope_at_mean_def one_sided_loss_function_def one_sided_slope_Val data_mean_def
      py_round_def round_half_even_def Let_def)

text \<open>
  C6, amended. In the one-sided generator, when the rounded sample mean equals a
  specification limit that lies above the target, the slope-at-mean reported is the
  capped loss \<open>tolerance * (spec_limit - target)\<^sup>2\<close>, which is positive and so never 0.
\<close>

theorem slope_at_spec_limit:
  assumes "f_round (data_mean data) round_value = Val spec_limit" and "target < spec_limit"
  shows "\<exists>out. one_sided_loss_function data target spec_limit k round_value below_target
                  past_spec = Inr out \<and>
           slope_at_mean out =
             Some (Val ((spec_limit - target) * (spec_limit - target) ^ 2)) \<and>
           0 < (spec_limit - target) * (spec_limit - target) ^ 2"
proof -
  have "0 < spec_limit - target" using assms(2) by simp
  then have "0 < (spec_limit - target) * (spec_limit - target) ^ 2" by simp
  then show ?thesis using assms
    by (simp add: one_sided_loss_function_def one_sided_slope_Val slope_at_mean_def Let_def)
qed

theorem slope_at_spec_limit_witness:
  "f_round (data_mean (Series [9, 11])) 1 = Val 10 \<and> (0::real) < 10 \<and>
   slope_at_mean (projr (one_sided_loss_function (Series [9, 11]) 0 10 1 1 5 5)) =
     Some (Val 1000)"
proof -
  have m: "f_round (data_mean (Series [9, 11])) 1 = Val 10"
    by (simp add: data_mean_def py_round_def round_half_even_def Let_def)
  have "(0::real) < 10" by simp
  from slope_at_spec_limit [OF m this, of 1 5 5] m show ?thesis by auto
qed

section \<open>Input validation\<close>

text \<open>
  C3 as stated (an InvalidRange error whenever \<open>USL \<le> LSL\<close>, or
  \<open>spec_limit \<le> target\<close>, before any computation and with no output) fails: neither
  function compares its bounds. At \<open>USL = 5\<close>, \<open>LSL = 10\<close> the two-sided generator returns
  its four statistics and its 500 points, and so does the one-sided generator at
  \<open>target = 10\<close>, \<open>spec_limit = 5\<close>.
\<close>

theorem range_check_counterexample:
  "(5::real) \<le> 10 \<and>
   \<not> isl (taguchi_loss_function (NdArray [14, 16]) 5 10 1 1 2) \<and>
   length (Results (projr (taguchi_loss_function (NdArray [14, 16]) 5 10 1 1 2))) = 4 \<and>
   length (Loss_Curve (projr (taguchi_loss_function (NdArray [14, 16]) 5 10 1 1 2))) = 500 \<and>
   \<not> isl (one_sided_loss_function (NdArray [14, 16]) 10 5 1 1 5 5) \<and>
   length (Results (projr (one_sided_loss_function (NdArray [14, 16]) 10 5 1 1 5 5))) = 4 \<and>
   length (Loss_Curve (projr (one_sided_loss_function (NdArray [14, 16]) 10 5 1 1 5 5))) = 500"
proof -
  have m: "f_round (data_mean (NdArray [14, 16])) 1 = Val 15"
    by (simp add: data_mean_def py_round_def round_half_even_def Let_def)
  show ?thesis
    by (simp add: taguchi_loss_function_def one_sided_loss_function_def one_sided_slope_Val m
        length_linspace Let_def)
qed

text \<open>
  C3, amended. Neither generator checks its range. When \<open>USL \<le> LSL\<close> the two-sided
  generator raises no error: it returns the four statistics and the 500 points of the
  curve, each with the loss \<open>tolerance * (target - LSL)\<^sup>2\<close> when \<open>x \<le> LSL\<close> and
  \<open>tolerance * (USL - target)\<^sup>2\<close> otherwise. When \<open>spec_limit \<le> target\<close> the one-sided
  generator, on a non-empty sample set, returns the four statistics and the 500 points
  too, each with the loss \<open>tolerance * (spec_limit - target)\<^sup>2\<close> when \<open>x \<ge> spec_limit\<close>
  and 0 otherwise.
\<close>

theorem no_range_check:
  "(USL \<le> LSL \<longrightarrow>
      (\<exists>out. taguchi_loss_function data USL LSL k round_value spec_buffer = Inr out \<and>
         length (Results out) = 4 \<and> length (Loss_Curve out) = 500 \<and>
         (\<forall>(x, y) \<in> set (Loss_Curve out).
            let tolerance = USL - LSL;
                target = py_round (LSL + tolerance / 2) round_value
            in y = (if x \<le> LSL then tolerance * (target - LSL) ^ 2
                    else tolerance * (USL - target) ^ 2)))) \<and>
   (spec_limit \<le> target \<and> observations data \<noteq> [] \<longrightarrow>
      (\<exists>out. one_sided_loss_function data target spec_limit k round_value below_target
                past_spec = Inr out \<and>
         length (Results out) = 4 \<and> length (Loss_Curve out) = 500 \<and>
         (\<forall>(x, y) \<in> set (Loss_Curve out).
            let tolerance = spec_limit - target
            in y = (if spec_limit \<le> x then tolerance * (spec_limit - target) ^ 2 else 0))))"
proof (intro conjI impI)
  assume inv: "USL \<le> LSL"
  let ?out = "projr (taguchi_loss_function data USL LSL k round_value spec_buffer)"
  have ret: "taguchi_loss_function data USL LSL k round_value spec_buffer = Inr ?out"
    by (rule taguchi_returns)
  have rows: "length (Results ?out) = 4"
    by (simp add: taguchi_loss_function_def Let_def)
  have len: "length (Loss_Curve ?out) = 500"
    by (simp add: taguchi_curve length_linspace)
  have ys: "\<forall>(x, y) \<in> set (Loss_Curve ?out).
            let tolerance = USL - LSL;
                target = py_round (LSL + tolerance / 2) round_value
            in y = (if x \<le> LSL then tolerance * (target - LSL) ^ 2
                    else tolerance * (USL - target) ^ 2)"
  proof (clarify)
    fix x y
    assume "(x, y) \<in> set (Loss_Curve ?out)"
    then have "y = taguchi_result (USL - LSL) (py_round (LSL + (USL - LSL) / 2) round_value)
                     USL LSL x"
      unfolding taguchi_curve by (rule graph_point)
    with inv show "let tolerance = USL - LSL;
                target = py_round (LSL + tolerance / 2) round_value
            in y = (if x \<le> LSL then tolerance * (target - LSL) ^ 2
                    else tolerance * (USL - target) ^ 2)"
      by (simp add: taguchi_result_def Let_def)
  qed
  from ret rows len ys
  show "\<exists>out. taguchi_loss_function data USL LSL k round_value spec_buffer = Inr out \<and>
         length (Results out) = 4 \<and> length (Loss_Curve out) = 500 \<and>
         (\<forall>(x, y) \<in> set (Loss_Curve out).
            let tolerance = USL - LSL;
                target = py_round (LSL + tolerance / 2) round_value
            in y = (if x \<le> LSL then tolerance * (target - LSL) ^ 2
                    else tolerance * (USL - target) ^ 2))"
    by blast
next
  assume "spec_limit \<le> target \<and> observations data \<noteq> []"
  then have inv: "spec_limit \<le> target" and ne: "observations data \<noteq> []" by simp_all
  let ?out = "projr (one_sided_loss_function data target spec_limit k round_value below_target
                       past_spec)"
  have ret: "one_sided_loss_function data target spec_limit k round_value below_target
               past_spec = Inr ?out"
    by (rule one_sided_returns [OF ne])
  obtain m where m: "f_round (data_mean data) round_value = Val m"
    using rounded_mean_Val [OF ne] by blast
  have rows: "length (Results ?out) = 4"
    by (simp add: one_sided_loss_function_def one_sided_slope_Val m Let_def)
  have len: "length (Loss_Curve ?out) = 500"
    by (simp add: one_sided_curve [OF ne] length_linspace)
  have ys: "\<forall>(x, y) \<in> set (Loss_Curve ?out).
            let tolerance = spec_limit - target
            in y = (if spec_limit \<le> x then tolerance * (spec_limit - target) ^ 2 else 0)"
  proof (clarify)
    fix x y
    assume "(x, y) \<in> set (Loss_Curve ?out)"
    then have "y = one_sided_result (spec_limit - target) target spec_limit x"
      unfolding one_sided_curve [OF ne] by (rule graph_point)
    with inv show "let tolerance = spec_limit - target
            in y = (if spec_limit \<le> x then tolerance * (spec_limit - target) ^ 2 else 0)"
      by (simp add: one_sided_result_def Let_def)
  qed
  from ret rows len ys
  show "\<exists>out. one_sided_loss_function data target spec_limit k round_value below_target
                past_spec = Inr out \<and>
         length (Results out) = 4 \<and> length (Loss_Curve out) = 500 \<and>
         (\<forall>(x, y) \<in> set (Loss_Curve out).
            let tolerance = spec_limit - target
            in y = (if spec_limit \<le> x then tolerance * (spec_limit - target) ^ 2 else 0))"
    by blast
qed

text \<open>
  At \<open>USL = 5\<close>, \<open>LSL = 10\<close> (target 7.5, tolerance \<open>- 5\<close>) the curve runs from \<open>x = 8\<close>
  down to \<open>x = 7\<close> and its first point has the loss \<open>- 5 * 2.5\<^sup>2 = - 31.25\<close>; at
  \<open>target = 10\<close>, \<open>spec_limit = 5\<close> the first point of the one-sided curve, \<open>x = 5\<close>, has the
  loss \<open>- 5 * 5\<^sup>2 = - 125\<close>.
\<close>

theorem no_range_check_witness:
  "(5::real) \<le> 10 \<and> observations (Series [3]) \<noteq> [] \<and>
   Loss_Curve (projr (taguchi_loss_function (Series [3]) 5 10 1 1 2)) ! 0 = (8, - 125 / 4) \<and>
   Loss_Curve (projr (one_sided_loss_function (Series [3]) 10 5 1 1 5 5)) ! 0 = (5, - 125)"
proof -
  have r: "py_round (10 + (5 - 10) / 2) 1 = 15 / 2"
    by (simp add: py_round_def round_half_even_def Let_def)
  have h: "(5::real) \<le> 10" by simp
  have ne: "observations (Series [3]) \<noteq> []" by simp
  note inst = no_range_check [of 5 10 "Series [3]" 1 1 2 5 10 5 5]
  obtain out where out: "taguchi_loss_function (Series [3]) 5 10 1 1 2 = Inr out"
    and len: "length (Loss_Curve out) = 500"
    and ys: "\<forall>(x, y) \<in> set (Loss_Curve out).
              let tolerance = 5 - 10; target = py_round (10 + tolerance / 2) 1
              in y = (if x \<le> 10 then tolerance * (target - 10) ^ 2
                      else tolerance * (5 - target) ^ 2)"
    using inst h by auto
  obtain out' where out': "one_sided_loss_function (Series [3]) 10 5 1 1 5 5 = Inr out'"
    and len': "length (Loss_Curve out') = 500"
    and ys': "\<forall>(x, y) \<in> set (Loss_Curve out').
               let tolerance = 5 - 10
               in y = (if 5 \<le> x then tolerance * (5 - 10) ^ 2 else 0)"
    using inst h ne by auto
  have xs: "map fst (Loss_Curve out) = linspace (10 - 2) (5 + 2) 500"
    using taguchi_xs [of "Series [3]" 5 10 1 1 2] out by simp
  have xs': "map fst (Loss_Curve out') = linspace (10 - 5) (5 + 5) 500"
    using one_sided_xs [OF ne, of 10 5 1 1 5 5] out' by simp
  obtain y0 where y0: "(8, y0) \<in> set (Loss_Curve out)" "Loss_Curve out ! 0 = (8, y0)"
    using nth_pair [of 0 "Loss_Curve out" 8] len xs linspace_first [of 8 7] by auto
  obtain y1 where y1: "(5, y1) \<in> set (Loss_Curve out')" "Loss_Curve out' ! 0 = (5, y1)"
    using nth_pair [of 0 "Loss_Curve out'" 5] len' xs' linspace_first [of 5 10] by auto
  have "y0 = (5 - 10) * (py_round (10 + (5 - 10) / 2) 1 - 10) ^ 2"
    using ys y0(1) by (auto simp: Let_def)
  then have "y0 = - 125 / 4" unfolding r by (simp add: power2_eq_square)
  moreover have "y1 = - 125" using ys' y1(1) by (auto simp: Let_def)
  ultimately show ?thesis using out out' y0(2) y1(2) h by simp
qed

text \<open>
  C9 as stated (both generators fail with an EmptySample error on an empty sample set,
  with no output) fails: no function looks at the size of the sample. On an empty array
  the two-sided generator returns the 500 points of the curve and a statistics table
  whose four values are NaN.
\<close>

theorem empty_sample_counterexample:
  "observations (NdArray []) = [] \<and>
   \<not> isl (taguchi_loss_function (NdArray []) 20 10 1 1 2) \<and>
   Results (projr (taguchi_loss_function (NdArray []) 20 10 1 1 2)) =
     [(''Mean'', NaN), (''s'', NaN), (''Ave. Loss'', NaN), (''Slope at Ave.'', NaN)] \<and>
   length (Loss_Curve (projr (taguchi_loss_function (NdArray []) 20 10 1 1 2))) = 500"
  by (simp add: taguchi_loss_function_def data_mean_def f_ge_def length_linspace Let_def)

text \<open>
  C9, amended. Neither generator checks that the sample set is non-empty. On an empty
  sample set the two-sided generator raises no error: it returns the 500 points of the
  curve together with a statistics table in which the mean, the standard deviation, the
  average loss and the slope-at-mean are all NaN.
\<close>

theorem empty_sample_two_sided:
  assumes "observations data = []"
  shows "\<exists>out. taguchi_loss_function data USL LSL k round_value spec_buffer = Inr out \<and>
           Results out =
             [(''Mean'', NaN), (''s'', NaN), (''Ave. Loss'', NaN), (''Slope at Ave.'', NaN)] \<and>
           length (Loss_Curve out) = 500"
proof -
  have "data_mean data = NaN" using assms by (simp add: data_mean_def)
  moreover have "data_std data = NaN" using assms by (cases data) simp_all
  ultimately show ?thesis
    by (simp add: taguchi_loss_function_def f_ge_def length_linspace Let_def)
qed

theorem empty_sample_two_sided_witness:
  "observations (Series []) = [] \<and>
   Results (projr (taguchi_loss_function (Series []) 20 10 1 1 2)) =
     [(''Mean'', NaN), (''s'', NaN), (''Ave. Loss'', NaN), (''Slope at Ave.'', NaN)] \<and>
   length (Loss_Curve (projr (taguchi_loss_function (Series []) 20 10 1 1 2))) = 500"
proof -
  have h: "observations (Series []) = []" by simp
  from empty_sample_two_sided [OF h, of 20 10 1 1 2] h show ?thesis by auto
qed

text \<open>
  The one-sided generator on an empty sample set: the rounded mean is NaN, none of the
  three conditions of the chain holds, and the first read of \<^verbatim>\<open>slope\<close> raises.
\<close>

lemma one_sided_empty_sample:
  assumes "observations data = []"
  shows "one_sided_loss_function data target spec_limit k round_value below_target past_spec =
           Inl UnboundLocalError"
proof -
  have "data_mean data = NaN" using assms by (simp add: data_mean_def)
  then show ?thesis
    by (simp add: one_sided_loss_function_def one_sided_slope_def Let_def)
qed

section \<open>Shape of the curves\<close>

text \<open>
  C7 as stated (the two-sided curve is symmetric around the target for every
  \<open>USL > LSL\<close>, buffer and precision) fails where rounding moves the target off the
  midpoint. With \<open>LSL = 0\<close>, \<open>USL = 1\<close>, precision 0 and buffer 249 the target is
  \<open>round(0.5, 0) = 0\<close> and the 500 points are the integers from \<open>- 249\<close> to 250: the point
  \<open>target - 1\<close> has the loss 0 and the point \<open>target + 1\<close> the loss 1.
\<close>

theorem symmetry_counterexample:
  "(0::real) < 1 \<and> py_round (0 + (1 - 0) / 2) 0 = 0 \<and>
   Loss_Curve (projr (taguchi_loss_function (NdArray [0]) 1 0 1 0 249)) ! 248 = (0 - 1, 0) \<and>
   Loss_Curve (projr (taguchi_loss_function (NdArray [0]) 1 0 1 0 249)) ! 250 = (0 + 1, 1)"
proof -
  have r: "py_round (0 + (1 - 0) / 2) 0 = 0"
    by (simp add: py_round_def round_half_even_def Let_def)
  have x1: "linspace (- 249) 250 500 ! 248 = - 1"
    by (simp add: linspace_def Let_def)
  have x2: "linspace (- 249) 250 500 ! 250 = 1"
    by (simp add: linspace_def Let_def)
  have "Loss_Curve (projr (taguchi_loss_function (NdArray [0]) 1 0 1 0 249)) ! 248 = (- 1, 0)"
    unfolding taguchi_curve r by (simp add: length_linspace x1 taguchi_result_def)
  moreover
  have "Loss_Curve (projr (taguchi_loss_function (NdArray [0]) 1 0 1 0 249)) ! 250 = (1, 1)"
    unfolding taguchi_curve r by (simp add: length_linspace x2 taguchi_result_def)
  ultimately show ?thesis using r by simp
qed

text \<open>
  C7, amended. For every \<open>USL > LSL\<close>, buffer and precision the two-sided curve is flat
  outside the limits: every sampled \<open>x \<le> LSL\<close> has the loss the loop gives to \<open>LSL\<close>
  itself, and every sampled \<open>x \<ge> USL\<close> the loss it gives to \<open>USL\<close>. The curve is
  symmetric around the target (for every offset \<open>d\<close> with \<open>target - d\<close> and \<open>target + d\<close>
  both sampled, the two losses are equal) whenever rounding leaves the midpoint
  unchanged, that is \<open>target = LSL + tolerance / 2\<close>.
\<close>

theorem two_sided_flat_and_symmetric:
  assumes "LSL < USL"
  shows "\<exists>out. taguchi_loss_function data USL LSL k round_value spec_buffer = Inr out \<and>
           (let tolerance = USL - LSL;
                target = py_round (LSL + tolerance / 2) round_value
            in (\<forall>(x, y) \<in> set (Loss_Curve out).
                  x \<le> LSL \<longrightarrow> y = taguchi_result tolerance target USL LSL LSL) \<and>
               (\<forall>(x, y) \<in> set (Loss_Curve out).
                  USL \<le> x \<longrightarrow> y = taguchi_result tolerance target USL LSL USL) \<and>
               (target = LSL + tolerance / 2 \<longrightarrow>
                  (\<forall>d y1 y2. (target - d, y1) \<in> set (Loss_Curve out) \<and>
                              (target + d, y2) \<in> set (Loss_Curve out) \<longrightarrow> y1 = y2)))"
proof -
  let ?out = "projr (taguchi_loss_function data USL LSL k round_value spec_buffer)"
  let ?tol = "USL - LSL"
  let ?target = "py_round (LSL + ?tol / 2) round_value"
  have pt: "y = taguchi_result ?tol ?target USL LSL x" if "(x, y) \<in> set (Loss_Curve ?out)"
    for x y
    using that unfolding taguchi_curve by (rule graph_point)
  have left: "\<forall>(x, y) \<in> set (Loss_Curve ?out).
                x \<le> LSL \<longrightarrow> y = taguchi_result ?tol ?target USL LSL LSL"
  proof (clarify)
    fix x y
    assume "(x, y) \<in> set (Loss_Curve ?out)" and "x \<le> LSL"
    then show "y = taguchi_result ?tol ?target USL LSL LSL"
      using pt [of x y] by (simp add: taguchi_result_def)
  qed
  have right: "\<forall>(x, y) \<in> set (Loss_Curve ?out).
                 USL \<le> x \<longrightarrow> y = taguchi_result ?tol ?target USL LSL USL"
  proof (clarify)
    fix x y
    assume "(x, y) \<in> set (Loss_Curve ?out)" and "USL \<le> x"
    then show "y = taguchi_result ?tol ?target USL LSL USL"
      using pt [of x y] assms by (simp add: taguchi_result_def)
  qed
  have sym: "y1 = y2"
    if mid: "?target = LSL + ?tol / 2"
      and p1: "(?target - d, y1) \<in> set (Loss_Curve ?out)"
      and p2: "(?target + d, y2) \<in> set (Loss_Curve ?out)" for d y1 y2
  proof -
    define t where "t = ?target"
    have t: "t = LSL + (USL - LSL) / 2" using mid by (simp add: t_def)
    have e1: "y1 = taguchi_result (USL - LSL) t USL LSL (t - d)"
      using pt [OF p1] by (simp add: t_def)
    have e2: "y2 = taguchi_result (USL - LSL) t USL LSL (t + d)"
      using pt [OF p2] by (simp add: t_def)
    have half: "t - LSL = USL - t" using t by (simp add: field_simps)
    have sq: "(t - d - t) ^ 2 = (t + d - t) ^ 2" by (simp add: power2_eq_square)
    have lo: "t - d \<le> LSL \<longleftrightarrow> USL \<le> t + d" using half by linarith
    have hi: "USL \<le> t - d \<longleftrightarrow> t + d \<le> LSL" using half by linarith
    show ?thesis
      unfolding e1 e2 taguchi_result_def using assms lo hi half sq by auto
  qed
  have sym': "?target = LSL + ?tol / 2 \<longrightarrow>
                (\<forall>d y1 y2. (?target - d, y1) \<in> set (Loss_Curve ?out) \<and>
                            (?target + d, y2) \<in> set (Loss_Curve ?out) \<longrightarrow> y1 = y2)"
    using sym by blast
  show ?thesis
    unfolding Let_def
    by (rule exI [of _ ?out]) (intro conjI taguchi_returns left right sym')
qed

text \<open>
  At \<open>LSL = 0\<close>, \<open>USL = 4\<close>, precision 1 and buffer 1 the target is the midpoint 2; the
  first point, \<open>x = - 1 = 2 - 3\<close>, has the loss of \<open>LSL\<close>, \<open>4 * 2\<^sup>2 = 16\<close>, and the last,
  \<open>x = 5 = 2 + 3\<close>, has the same loss by symmetry.
\<close>

theorem two_sided_flat_and_symmetric_witness:
  "(0::real) < 4 \<and> py_round (0 + (4 - 0) / 2) 1 = 0 + (4 - 0) / 2 \<and>
   Loss_Curve (projr (taguchi_loss_function (NdArray [1, 2]) 4 0 1 1 1)) ! 0 = (2 - 3, 16) \<and>
   Loss_Curve (projr (taguchi_loss_function (NdArray [1, 2]) 4 0 1 1 1)) ! 499 = (2 + 3, 16)"
proof -
  have r: "py_round (0 + (4 - 0) / 2) 1 = 2"
    by (simp add: py_round_def round_half_even_def Let_def)
  have h: "(0::real) < 4" by simp
  obtain out where out: "taguchi_loss_function (NdArray [1, 2]) 4 0 1 1 1 = Inr out"
    and left: "\<forall>(x, y) \<in> set (Loss_Curve out).
                 x \<le> 0 \<longrightarrow> y = taguchi_result (4 - 0) (py_round (0 + (4 - 0) / 2) 1) 4 0 0"
    and right: "\<forall>(x, y) \<in> set (Loss_Curve out).
                 4 \<le> x \<longrightarrow> y = taguchi_result (4 - 0) (py_round (0 + (4 - 0) / 2) 1) 4 0 4"
    and sym: "py_round (0 + (4 - 0) / 2) 1 = 0 + (4 - 0) / 2 \<longrightarrow>
                 (\<forall>d y1 y2. (py_round (0 + (4 - 0) / 2) 1 - d, y1) \<in> set (Loss_Curve out) \<and>
                             (py_round (0 + (4 - 0) / 2) 1 + d, y2) \<in> set (Loss_Curve out) \<longrightarrow>
                             y1 = y2)"
    using two_sided_flat_and_symmetric [OF h, of "NdArray [1, 2]" 1 1 1]
    unfolding Let_def by blast
  have xs: "map fst (Loss_Curve out) = linspace (0 - 1) (4 + 1) 500"
    using taguchi_xs [of "NdArray [1, 2]" 4 0 1 1 1] out by simp
  have len: "length (Loss_Curve out) = 500"
    using arg_cong [OF xs, of length] by (simp add: length_linspace)
  obtain y0 where y0: "(- 1, y0) \<in> set (Loss_Curve out)" "Loss_Curve out ! 0 = (- 1, y0)"
    using nth_pair [of 0 "Loss_Curve out" "- 1"] len xs linspace_first [of "- 1" 5] by auto
  obtain y1 where y1: "(5, y1) \<in> set (Loss_Curve out)" "Loss_Curve out ! 499 = (5, y1)"
    using nth_pair [of 499 "Loss_Curve out" 5] len xs linspace_last [of "- 1" 5] by auto
  have "y0 = taguchi_result (4 - 0) (py_round (0 + (4 - 0) / 2) 1) 4 0 0"
    using left y0(1) by auto
  then have v0: "y0 = 16" unfolding r by (simp add: taguchi_result_def)
  have sym2: "\<forall>d y1 y2. (2 - d, y1) \<in> set (Loss_Curve out) \<and>
                          (2 + d, y2) \<in> set (Loss_Curve out) \<longrightarrow> y1 = y2"
    using sym unfolding r by simp
  have "(2 - 3, y0) \<in> set (Loss_Curve out)" "(2 + 3, y1) \<in> set (Loss_Curve out)"
    using y0(1) y1(1) by simp_all
  then have "y0 = y1" using sym2 by blast
  have "y1 = taguchi_result (4 - 0) (py_round (0 + (4 - 0) / 2) 1) 4 0 4"
    using right y1(1) by auto
  then have v1: "y1 = 16" unfolding r by (simp add: taguchi_result_def)
  from v0 v1 \<open>y0 = y1\<close> show ?thesis using out y0(2) y1(2) r by simp
qed

text \<open>
  C8. For every valid input (\<open>USL > LSL\<close> for the two-sided generator; a specification
  limit above the target and a non-empty sample set for the one-sided one) the generator
  returns a curve in which no loss is negative.
\<close>

theorem loss_nonnegative:
  "(LSL < USL \<longrightarrow>
      (\<exists>out. taguchi_loss_function data USL LSL k round_value spec_buffer = Inr out \<and>
         (\<forall>(x, y) \<in> set (Loss_Curve out). 0 \<le> y))) \<and>
   (target < spec_limit \<and> observations data \<noteq> [] \<longrightarrow>
      (\<exists>out. one_sided_loss_function data target spec_limit k round_value below_target
                past_spec = Inr out \<and>
         (\<forall>(x, y) \<in> set (Loss_Curve out). 0 \<le> y)))"
proof (intro conjI impI)
  assume v: "LSL < USL"
  let ?out = "projr (taguchi_loss_function data USL LSL k round_value spec_buffer)"
  have "0 \<le> taguchi_result (USL - LSL) t USL LSL x" for t x
    using v by (simp add: taguchi_result_def)
  then have "\<forall>(x, y) \<in> set (Loss_Curve ?out). 0 \<le> y"
    unfolding taguchi_curve by auto
  with taguchi_returns
  show "\<exists>out. taguchi_loss_function data USL LSL k round_value spec_buffer = Inr out \<and>
          (\<forall>(x, y) \<in> set (Loss_Curve out). 0 \<le> y)"
    by blast
next
  assume "target < spec_limit \<and> observations data \<noteq> []"
  then have v: "target < spec_limit" and ne: "observations data \<noteq> []" by simp_all
  let ?out = "projr (one_sided_loss_function data target spec_limit k round_value below_target
                       past_spec)"
  have "0 \<le> one_sided_result (spec_limit - target) target spec_limit x" for x
    using v by (simp add: one_sided_result_def)
  then have "\<forall>(x, y) \<in> set (Loss_Curve ?out). 0 \<le> y"
    unfolding one_sided_curve [OF ne] by auto
  with one_sided_returns [OF ne]
  show "\<exists>out. one_sided_loss_function data target spec_limit k round_value below_target
                past_spec = Inr out \<and>
          (\<forall>(x, y) \<in> set (Loss_Curve out). 0 \<le> y)"
    by blast
qed

theorem loss_nonnegative_witness:
  "(10::real) < 20 \<and> (0::real) < 10 \<and> observations (NdArray [5]) \<noteq> [] \<and>
   0 \<le> snd (Loss_Curve (projr (taguchi_loss_function (NdArray [5]) 20 10 1 1 2)) ! 100) \<and>
   0 \<le> snd (Loss_Curve (projr (one_sided_loss_function (NdArray [5]) 0 10 1 1 5 5)) ! 100)"
proof -
  have h1: "(10::real) < 20" and h2: "(0::real) < 10"
    and ne: "observations (NdArray [5]) \<noteq> []" by simp_all
  note inst = loss_nonnegative [of 10 20 "NdArray [5]" 1 1 2 0 10 5 5]
  obtain out where out: "taguchi_loss_function (NdArray [5]) 20 10 1 1 2 = Inr out"
    and ys: "\<forall>(x, y) \<in> set (Loss_Curve out). 0 \<le> y"
    using inst h1 by auto
  obtain out' where out': "one_sided_loss_function (NdArray [5]) 0 10 1 1 5 5 = Inr out'"
    and ys': "\<forall>(x, y) \<in> set (Loss_Curve out'). 0 \<le> y"
    using inst h2 ne by auto
  have "length (Loss_Curve out) = 500"
    using taguchi_curve [of "NdArray [5]" 20 10 1 1 2] out by (simp add: length_linspace)
  then have "Loss_Curve out ! 100 \<in> set (Loss_Curve out)" by simp
  then have a: "0 \<le> snd (Loss_Curve out ! 100)" using ys by (auto simp: case_prod_beta)
  have "length (Loss_Curve out') = 500"
    using one_sided_curve [OF ne, of 0 10 1 1 5 5] out' by (simp add: length_linspace)
  then have "Loss_Curve out' ! 100 \<in> set (Loss_Curve out')" by simp
  then have b: "0 \<le> snd (Loss_Curve out' ! 100)" using ys' by (auto simp: case_prod_beta)
  show ?thesis using a b out out' h1 ne by simp
qed

section \<open>The curve and the sample\<close>

text \<open>
  C10. For either generator, two calls with the same bounds, margins and precision and
  any two non-empty sample sets (and any two scale constants) return the same 500
  points: the curve does not depend on the sample.
\<close>

theorem curve_independent_of_sample:
  assumes "observations data1 \<noteq> []" and "observations data2 \<noteq> []"
  shows "(\<exists>out1 out2.
            taguchi_loss_function data1 USL LSL k1 round_value spec_buffer = Inr out1 \<and>
            taguchi_loss_function data2 USL LSL k2 round_value spec_buffer = Inr out2 \<and>
            Loss_Curve out1 = Loss_Curve out2 \<and> length (Loss_Curve out1) = 500) \<and>
         (\<exists>out1 out2.
            one_sided_loss_function data1 target spec_limit k1 round_value below_target
              past_spec = Inr out1 \<and>
            one_sided_loss_function data2 target spec_limit k2 round_value below_target
              past_spec = Inr out2 \<and>
            Loss_Curve out1 = Loss_Curve out2 \<and> length (Loss_Curve out1) = 500)"
proof (rule conjI)
  let ?o1 = "projr (taguchi_loss_function data1 USL LSL k1 round_value spec_buffer)"
  let ?o2 = "projr (taguchi_loss_function data2 USL LSL k2 round_value spec_buffer)"
  have "Loss_Curve ?o1 = Loss_Curve ?o2" by (simp add: taguchi_curve)
  moreover have "length (Loss_Curve ?o1) = 500" by (simp add: taguchi_curve length_linspace)
  ultimately
  show "\<exists>out1 out2.
            taguchi_loss_function data1 USL LSL k1 round_value spec_buffer = Inr out1 \<and>
            taguchi_loss_function data2 USL LSL k2 round_value spec_buffer = Inr out2 \<and>
            Loss_Curve out1 = Loss_Curve out2 \<and> length (Loss_Curve out1) = 500"
    using taguchi_returns [of data1 USL LSL k1 round_value spec_buffer]
      taguchi_returns [of data2 USL LSL k2 round_value spec_buffer] by blast
next
  let ?o1 = "projr (one_sided_loss_function data1 target spec_limit k1 round_value
                      below_target past_spec)"
  let ?o2 = "projr (one_sided_loss_function data2 target spec_limit k2 round_value
                      below_target past_spec)"
  have "Loss_Curve ?o1 = Loss_Curve ?o2"
    by (simp add: one_sided_curve [OF assms(1)] one_sided_curve [OF assms(2)])
  moreover have "length (Loss_Curve ?o1) = 500"
    by (simp add: one_sided_curve [OF assms(1)] length_linspace)
  ultimately
  show "\<exists>out1 out2.
            one_sided_loss_function data1 target spec_limit k1 round_value below_target
              past_spec = Inr out1 \<and>
            one_sided_loss_function data2 target spec_limit k2 round_value below_target
              past_spec = Inr out2 \<and>
            Loss_Curve out1 = Loss_Curve out2 \<and> length (Loss_Curve out1) = 500"
    using one_sided_returns [OF assms(1), of target spec_limit k1 round_value below_target
        past_spec]
      one_sided_returns [OF assms(2), of target spec_limit k2 round_value below_target
        past_spec] by blast
qed

theorem curve_independent_of_sample_witness:
  "observations (NdArray [1, 2, 3]) \<noteq> [] \<and> observations (Series [40]) \<noteq> [] \<and>
   Loss_Curve (projr (taguchi_loss_function (NdArray [1, 2, 3]) 20 10 1 1 2)) =
     Loss_Curve (projr (taguchi_loss_function (Series [40]) 20 10 3 1 2)) \<and>
   Loss_Curve (projr (one_sided_loss_function (NdArray [1, 2, 3]) 0 10 1 1 5 5)) =
     Loss_Curve (projr (one_sided_loss_function (Series [40]) 0 10 3 1 5 5))"
proof -
  have ne1: "observations (NdArray [1, 2, 3]) \<noteq> []"
    and ne2: "observations (Series [40]) \<noteq> []" by simp_all
  from curve_independent_of_sample [OF ne1 ne2, of 20 10 1 1 2 3 0 10 5 5] ne1 ne2
  show ?thesis by auto
qed

end
